theory Spec2Isabelle
  imports Main
begin

section \<open>Python values the middleware handles\<close>

text \<open>
  The exceptions that the statements of \<open>throttle.py\<close> can raise by themselves.
  Subscripting \<open>None\<close> raises \<open>TypeError\<close>.
\<close>

datatype error = TypeError

text \<open>
  The ASGI connection scope, restricted to the three entries the middleware reads:
  \<open>scope["type"]\<close>, \<open>scope["headers"]\<close> (raw name and value pairs, in order) and
  \<open>scope["client"]\<close>, which is a (host, port) pair or Python's \<open>None\<close>.
\<close>

record scope =
  stype :: string
  headers :: "(string \<times> string) list"
  client :: "(string \<times> int) option"

text \<open>Python truthiness of an optional string: \<open>None\<close> and \<open>""\<close> are falsy.\<close>

fun truthy :: "string option \<Rightarrow> bool" where
  "truthy None = False"
| "truthy (Some v) = (v \<noteq> [])"

text \<open>
  \<open>next(iter(v), None)\<close> on a string \<open>v\<close>: the iterator of a string yields its
  characters, so the result is the one-character string made of the first character,
  or \<open>None\<close> when the string is empty.
\<close>

fun next_iter :: "string \<Rightarrow> string option" where
  "next_iter [] = None"
| "next_iter (c # cs) = Some [c]"

text \<open>
  \<open>str.lower\<close> on the characters of a header name (one byte each, Latin-1): the
  letters A to Z and the accented capitals 192 to 222 (without the multiplication sign
  215) move up by 32.
\<close>

definition lower_char :: "char \<Rightarrow> char" where
  "lower_char c =
     (let n = (of_char c :: nat)
      in if (65 \<le> n \<and> n \<le> 90) \<or> (192 \<le> n \<and> n \<le> 222 \<and> n \<noteq> 215)
         then char_of (n + 32) else c)"

definition lower :: "string \<Rightarrow> string" where
  "lower v = map lower_char v"

text \<open>
  \<open>Headers.get(key, default)\<close> of starlette: the value of the first raw header whose
  name equals the lower-cased key, the default when there is none.
\<close>

fun Headers_get :: "(string \<times> string) list \<Rightarrow> string \<Rightarrow> string option \<Rightarrow> string option" where
  "Headers_get [] key dflt = dflt"
| "Headers_get ((k, v) # hs) key dflt =
     (if k = lower key then Some v else Headers_get hs key dflt)"

section \<open>The counter store\<close>

text \<open>
  The counter store is the external Redis service behind \<open>self.redis\<close>; the
  repository holds none of its code. A counter record has an integer value and a
  remaining time to live (\<open>None\<close> for a key without expiry). The store keeps the list
  of the commands it has served, so that reads are observable as well as writes.
\<close>

record counter =
  cvalue :: int
  ttl :: "int option"

datatype redis_op = Op_get string | Op_set string int int | Op_incr string

record store =
  db :: "string \<rightharpoonup> counter"
  ops :: "redis_op list"

text \<open>
  Modelled from the spec: \<open>get(key) -> integer or absent\<close> of the counter store
  (section 6), the command behind \<open>self.redis.get\<close>. It yields the value of the record
  under the key, or nothing, and changes no record.
\<close>

definition redis_get :: "string \<Rightarrow> store \<Rightarrow> int option \<times> store" where
  "redis_get k s = (map_option cvalue (db s k), s\<lparr>ops := ops s @ [Op_get k]\<rparr>)"

text \<open>
  Modelled from the spec: \<open>set_with_expiry(key, value, ttl)\<close> of the counter store
  (section 6), the command behind \<open>self.redis.set(key, value, ex=ttl)\<close>. It writes the
  record with that value and that expiry.
\<close>

definition redis_set :: "string \<Rightarrow> int \<Rightarrow> int \<Rightarrow> store \<Rightarrow> store" where
  "redis_set k v ex s =
     s\<lparr>db := (db s)(k \<mapsto> \<lparr>cvalue = v, ttl = Some ex\<rparr>), ops := ops s @ [Op_set k v ex]\<rparr>"

text \<open>
  Modelled from the spec: \<open>increment(key)\<close> of the counter store (section 6), the
  command behind \<open>self.redis.incr\<close>. It adds one to the value and leaves the expiry
  as it is (section 4.1, step 3); a missing key counts from zero and gets no expiry.
\<close>

definition redis_incr :: "string \<Rightarrow> store \<Rightarrow> store" where
  "redis_incr k s =
     s\<lparr>db := (db s)(k \<mapsto>
            (case db s k of
               None \<Rightarrow> \<lparr>cvalue = 1, ttl = None\<rparr>
             | Some c \<Rightarrow> c\<lparr>cvalue := cvalue c + 1\<rparr>)),
       ops := ops s @ [Op_incr k]\<rparr>"

text \<open>The store's own expiry of a key, an event outside the middleware.\<close>

definition expire :: "string \<Rightarrow> store \<Rightarrow> store" where
  "expire k s = s\<lparr>db := (db s)(k := None)\<rparr>"

section \<open>The middleware\<close>

text \<open>A Redis client handle: host and port; \<open>Redis()\<close> connects to localhost:6379.\<close>

datatype redis_client = Redis string nat

definition Redis_default :: redis_client where
  "Redis_default = Redis ''localhost'' 6379"

record response =
  status_code :: int
  content :: "(string \<times> string) list"

definition ThrottlingResponse :: response where
  "ThrottlingResponse = \<lparr>status_code = 429, content = [(''detail'', ''Too Many Requests'')]\<rparr>"

record 'a middleware =
  app :: 'a
  token_header :: string
  limit :: int
  window :: int
  redis :: redis_client

text \<open>
  \<open>__init__\<close>: stores its arguments; a missing Redis client is replaced by the
  default one. No statement of the constructor raises.
\<close>

definition init ::
  "'a \<Rightarrow> int \<Rightarrow> int \<Rightarrow> string \<Rightarrow> redis_client option \<Rightarrow> error + 'a middleware" where
  "init a lim win th r =
     Inr \<lparr>app = a, token_header = th, limit = lim, window = win,
          redis = (case r of None \<Rightarrow> Redis_default | Some c \<Rightarrow> c)\<rparr>"

text \<open>
  \<open>has_exceeded_rate_limit\<close>: the result is the returned flag (\<open>True\<close> is Deny,
  \<open>False\<close> is Allow) and the store after the call.
\<close>

definition has_exceeded_rate_limit :: "'a middleware \<Rightarrow> string \<Rightarrow> store \<Rightarrow> bool \<times> store" where
  "has_exceeded_rate_limit self identifier s =
     (let (current_count, s1) = redis_get identifier s
      in case current_count of
           None \<Rightarrow> (False, redis_set identifier 1 (window self) s1)
         | Some n \<Rightarrow>
             if n < limit self then (False, redis_incr identifier s1)
             else (True, s1))"

text \<open>
  The guard \<open>x and await self.has_exceeded_rate_limit(x)\<close>: a falsy \<open>x\<close> skips the
  check without touching the store.
\<close>

definition throttled :: "'a middleware \<Rightarrow> string option \<Rightarrow> store \<Rightarrow> bool \<times> store" where
  "throttled self x s =
     (if truthy x then has_exceeded_rate_limit self (the x) s else (False, s))"

text \<open>
  \<open>client_ip\<close> of \<open>__call__\<close>. The default argument of \<open>headers.get\<close> is evaluated
  before the lookup, so \<open>scope["client"][0]\<close> is always read.
\<close>

definition client_ip :: "scope \<Rightarrow> error + string option" where
  "client_ip sc =
     (case client sc of
        None \<Rightarrow> Inl TypeError
      | Some (host, port) \<Rightarrow> Inr (Headers_get (headers sc) ''x-forwarded-for'' (next_iter host)))"

text \<open>
  What \<open>__call__\<close> does with the connection: it awaits the downstream application or
  sends a response of its own, in both cases with the scope, receive and send it got.
\<close>

datatype ('a, 'r, 't) outcome =
    App_called 'a scope 'r 't
  | Response_sent response scope 'r 't

definition call ::
  "'a middleware \<Rightarrow> scope \<Rightarrow> 'r \<Rightarrow> 't \<Rightarrow> store \<Rightarrow> error + (('a, 'r, 't) outcome \<times> store)" where
  "call self sc receive send s =
     (if stype sc \<noteq> ''http'' then Inr (App_called (app self) sc receive send, s)
      else
        case client_ip sc of
          Inl e \<Rightarrow> Inl e
        | Inr ip \<Rightarrow>
            let (denied_ip, s1) = throttled self ip s
            in if denied_ip then Inr (Response_sent ThrottlingResponse sc receive send, s1)
               else
                 let token = Headers_get (headers sc) (token_header self) None;
                     (denied_token, s2) = throttled self token s1
                 in if denied_token
                    then Inr (Response_sent ThrottlingResponse sc receive send, s2)
                    else Inr (App_called (app self) sc receive send, s2))"

text \<open>
  A sequential burst: \<open>n\<close> rate checks on the same identifier, one after the other,
  with no expiry of the store in between. The result lists the flags in call order.
\<close>

fun burst :: "'a middleware \<Rightarrow> string \<Rightarrow> nat \<Rightarrow> store \<Rightarrow> bool list \<times> store" where
  "burst self i 0 s = ([], s)"
| "burst self i (Suc n) s =
     (let (d, s1) = has_exceeded_rate_limit self i s;
          (ds, s2) = burst self i n s1
      in (d # ds, s2))"

text \<open>The store before any command, and a middleware built with a given policy.\<close>

definition empty_store :: store where
  "empty_store = \<lparr>db = Map.empty, ops = []\<rparr>"

definition mw :: "int \<Rightarrow> int \<Rightarrow> string middleware" where
  "mw lim win =
     \<lparr>app = ''downstream'', token_header = ''Authorization'', limit = lim, window = win,
      redis = Redis_default\<rparr>"

text \<open>A store that holds one record, and one that holds two.\<close>

definition store_with :: "string \<Rightarrow> int \<Rightarrow> int \<Rightarrow> store" where
  "store_with k v t = \<lparr>db = [k \<mapsto> \<lparr>cvalue = v, ttl = Some t\<rparr>], ops = []\<rparr>"

definition store_with2 :: "string \<Rightarrow> int \<Rightarrow> string \<Rightarrow> int \<Rightarrow> store" where
  "store_with2 k v k' v' =
     \<lparr>db = [k \<mapsto> \<lparr>cvalue = v, ttl = Some 30\<rparr>, k' \<mapsto> \<lparr>cvalue = v', ttl = Some 30\<rparr>],
      ops = []\<rparr>"

text \<open>
  An HTTP request as the server hands it over: the peer address, and the headers with
  lower-case names.
\<close>

definition http_request :: "(string \<times> int) option \<Rightarrow> (string \<times> string) list \<Rightarrow> scope" where
  "http_request peer hs = \<lparr>stype = ''http'', headers = hs, client = peer\<rparr>"

section \<open>Facts about the store commands\<close>

lemma redis_get_db [simp]: "db (snd (redis_get k s)) = db s"
  by (simp add: redis_get_def)

lemma redis_get_value [simp]: "fst (redis_get k s) = map_option cvalue (db s k)"
  by (simp add: redis_get_def)

lemma redis_get_ops [simp]: "ops (snd (redis_get k s)) = ops s @ [Op_get k]"
  by (simp add: redis_get_def)

lemma lower_x_forwarded_for [simp]: "lower ''x-forwarded-for'' = ''x-forwarded-for''"
  by code_simp

lemma lower_Authorization [simp]: "lower ''Authorization'' = ''authorization''"
  by code_simp

lemma has_exceeded_denied:
  assumes "db s i = Some c" "limit self \<le> cvalue c"
  shows "has_exceeded_rate_limit self i s = (True, s\<lparr>ops := ops s @ [Op_get i]\<rparr>)"
  using assms by (simp add: has_exceeded_rate_limit_def redis_get_def)

lemma has_exceeded_other_key:
  "i \<noteq> j \<Longrightarrow> db (snd (has_exceeded_rate_limit self i s)) j = db s j"
  by (simp add: has_exceeded_rate_limit_def redis_get_def redis_set_def redis_incr_def
      split: option.split)

lemma has_exceeded_reads_own_key:
  assumes "db s j = db s' j"
  shows "fst (has_exceeded_rate_limit self j s) = fst (has_exceeded_rate_limit self j s')"
    and "db (snd (has_exceeded_rate_limit self j s)) j
           = db (snd (has_exceeded_rate_limit self j s')) j"
  using assms
  by (simp_all add: has_exceeded_rate_limit_def redis_get_def redis_set_def redis_incr_def
      split: option.split)

text \<open>
  After the store has dropped the record of an identifier, the next check treats the
  identifier as new: it allows and starts the count at 1 with a full window.
\<close>

lemma check_after_expiry:
  "\<not> fst (has_exceeded_rate_limit self i (expire i s)) \<and>
   db (snd (has_exceeded_rate_limit self i (expire i s))) i
     = Some \<lparr>cvalue = 1, ttl = Some (window self)\<rparr>"
  by (simp add: has_exceeded_rate_limit_def redis_get_def redis_set_def expire_def)

section \<open>Bursts of rate checks\<close>

lemma burst_Suc:
  "burst self i (Suc n) s =
     (fst (has_exceeded_rate_limit self i s) # fst (burst self i n (snd (has_exceeded_rate_limit self i s))),
      snd (burst self i n (snd (has_exceeded_rate_limit self i s))))"
  by (simp add: split_beta)

lemma burst_denied:
  assumes "db s i = Some c" "limit self \<le> cvalue c"
  shows "fst (burst self i n s) = replicate n True \<and> db (snd (burst self i n s)) = db s"
  using assms
proof (induction n arbitrary: s)
  case 0
  then show ?case by simp
next
  case (Suc n)
  let ?s1 = "snd (has_exceeded_rate_limit self i s)"
  from Suc.prems have d: "fst (has_exceeded_rate_limit self i s)" and e: "db ?s1 = db s"
    by (simp_all add: has_exceeded_denied)
  from Suc.IH [of ?s1] Suc.prems e
  have "fst (burst self i n ?s1) = replicate n True \<and> db (snd (burst self i n ?s1)) = db s"
    by simp
  with d show ?case by (simp add: burst_Suc del: burst.simps)
qed

lemma burst_allowed:
  assumes "db s i = Some c" "cvalue c + int k = limit self"
  shows "fst (burst self i (k + m) s) = replicate k False @ replicate m True"
  using assms
proof (induction k arbitrary: s c)
  case 0
  then show ?case using burst_denied [of s i c self m] by simp
next
  case (Suc k)
  let ?s1 = "snd (has_exceeded_rate_limit self i s)"
  let ?c1 = "c\<lparr>cvalue := cvalue c + 1\<rparr>"
  from Suc.prems have d: "\<not> fst (has_exceeded_rate_limit self i s)"
    and e: "db ?s1 i = Some ?c1"
    by (simp_all add: has_exceeded_rate_limit_def redis_get_def redis_incr_def)
  from Suc.prems have "cvalue ?c1 + int k = limit self" by simp
  from Suc.IH [OF e this] d show ?case by (simp add: burst_Suc del: burst.simps)
qed

lemma burst_fresh:
  assumes "db s i = None" "limit self = int N" "1 \<le> N"
  shows "fst (burst self i (N + m) s) = replicate N False @ replicate m True"
proof -
  obtain k where N: "N = Suc k" using assms(3) by (cases N) auto
  let ?s1 = "snd (has_exceeded_rate_limit self i s)"
  let ?c1 = "\<lparr>cvalue = 1, ttl = Some (window self)\<rparr>"
  from assms(1) have d: "\<not> fst (has_exceeded_rate_limit self i s)"
    and e: "db ?s1 i = Some ?c1"
    by (simp_all add: has_exceeded_rate_limit_def redis_get_def redis_set_def)
  have "cvalue ?c1 + int k = limit self"
    using assms(2) N by simp
  from burst_allowed [OF e this, of m] d show ?thesis
    by (simp add: N burst_Suc del: burst.simps)
qed

lemma burst_other_key: "i \<noteq> j \<Longrightarrow> db (snd (burst self i n s)) j = db s j"
proof (induction n arbitrary: s)
  case 0
  then show ?case by simp
next
  case (Suc n)
  from Suc.IH [OF Suc.prems, of "snd (has_exceeded_rate_limit self i s)"]
  show ?case by (simp add: burst_Suc has_exceeded_other_key [OF Suc.prems] del: burst.simps)
qed

section \<open>The rate check\<close>

text \<open>
  C1. One rate check on any identifier and any store: without a record it stores
  value 1 with expiry equal to the window and allows; with a record below the limit it
  adds one to the value, keeps the expiry and allows; with a record at or above the
  limit it denies.
\<close>

theorem has_exceeded_rate_limit_step:
  "(db s i = None \<longrightarrow>
      \<not> fst (has_exceeded_rate_limit self i s) \<and>
      db (snd (has_exceeded_rate_limit self i s)) i
        = Some \<lparr>cvalue = 1, ttl = Some (window self)\<rparr>) \<and>
   (\<forall>c. db s i = Some c \<and> cvalue c < limit self \<longrightarrow>
      \<not> fst (has_exceeded_rate_limit self i s) \<and>
      db (snd (has_exceeded_rate_limit self i s)) i
        = Some \<lparr>cvalue = cvalue c + 1, ttl = ttl c\<rparr>) \<and>
   (\<forall>c. db s i = Some c \<and> limit self \<le> cvalue c \<longrightarrow>
      fst (has_exceeded_rate_limit self i s))"
  by (simp add: has_exceeded_rate_limit_def redis_get_def redis_set_def redis_incr_def)

theorem has_exceeded_rate_limit_step_witness:
  "db empty_store ''1.2.3.4'' = None \<and>
   \<not> fst (has_exceeded_rate_limit (mw 2 60) ''1.2.3.4'' empty_store) \<and>
   db (snd (has_exceeded_rate_limit (mw 2 60) ''1.2.3.4'' empty_store)) ''1.2.3.4''
     = Some \<lparr>cvalue = 1, ttl = Some 60\<rparr> \<and>
   db (store_with ''1.2.3.4'' 1 55) ''1.2.3.4'' = Some \<lparr>cvalue = 1, ttl = Some 55\<rparr> \<and>
   1 < limit (mw 2 60) \<and>
   \<not> fst (has_exceeded_rate_limit (mw 2 60) ''1.2.3.4'' (store_with ''1.2.3.4'' 1 55)) \<and>
   db (snd (has_exceeded_rate_limit (mw 2 60) ''1.2.3.4'' (store_with ''1.2.3.4'' 1 55)))
      ''1.2.3.4''
     = Some \<lparr>cvalue = 2, ttl = Some 55\<rparr> \<and>
   db (store_with ''1.2.3.4'' 2 55) ''1.2.3.4'' = Some \<lparr>cvalue = 2, ttl = Some 55\<rparr> \<and>
   limit (mw 2 60) \<le> 2 \<and>
   fst (has_exceeded_rate_limit (mw 2 60) ''1.2.3.4'' (store_with ''1.2.3.4'' 2 55))"
  using has_exceeded_rate_limit_step [of empty_store "''1.2.3.4''" "mw 2 60"]
    has_exceeded_rate_limit_step [of "store_with ''1.2.3.4'' 1 55" "''1.2.3.4''" "mw 2 60"]
    has_exceeded_rate_limit_step [of "store_with ''1.2.3.4'' 2 55" "''1.2.3.4''" "mw 2 60"]
  by (simp add: empty_store_def store_with_def mw_def)

text \<open>
  C2. With limit \<open>N \<ge> 1\<close>, a sequential burst of \<open>N + 1\<close> rate checks on an identifier
  that has no record is allowed \<open>N\<close> times and denied the last time; more generally
  every check after the first \<open>N\<close> is denied, so with limit 1 all but the first are.
\<close>

theorem burst_allows_limit_then_denies:
  assumes "db s i = None" "limit self = int N" "1 \<le> N"
  shows "fst (burst self i (Suc N) s) = replicate N False @ [True] \<and>
         fst (burst self i (N + m) s) = replicate N False @ replicate m True"
  using burst_fresh [OF assms, of 1] burst_fresh [OF assms, of m] by simp

theorem burst_allows_limit_then_denies_witness:
  "db empty_store ''1.2.3.4'' = None \<and> limit (mw 2 60) = int 2 \<and> (1::nat) \<le> 2 \<and>
   fst (burst (mw 2 60) ''1.2.3.4'' (Suc 2) empty_store) = [False, False, True] \<and>
   limit (mw 1 60) = int 1 \<and>
   fst (burst (mw 1 60) ''1.2.3.4'' (1 + 3) empty_store) = [False, True, True, True]"
  using burst_allows_limit_then_denies [of empty_store "''1.2.3.4''" "mw 2 60" 2 1]
    burst_allows_limit_then_denies [of empty_store "''1.2.3.4''" "mw 1 60" 1 3]
  by (simp add: empty_store_def mw_def numeral_2_eq_2 numeral_3_eq_3)

text \<open>
  C5. A rate check on an identifier whose record is at or above the limit denies and
  leaves every record of the store as it was; so does any number of repeated checks,
  and the stored value stays what it was.
\<close>

theorem denied_check_leaves_store:
  assumes "db s i = Some c" "limit self \<le> cvalue c"
  shows "fst (has_exceeded_rate_limit self i s) \<and>
         db (snd (has_exceeded_rate_limit self i s)) = db s \<and>
         fst (burst self i n s) = replicate n True \<and>
         db (snd (burst self i n s)) = db s"
  using burst_denied [OF assms, of n] by (simp add: has_exceeded_denied [OF assms])

theorem denied_check_leaves_store_witness:
  "db (store_with ''1.2.3.4'' 2 55) ''1.2.3.4'' = Some \<lparr>cvalue = 2, ttl = Some 55\<rparr> \<and>
   limit (mw 2 60) \<le> 2 \<and>
   fst (has_exceeded_rate_limit (mw 2 60) ''1.2.3.4'' (store_with ''1.2.3.4'' 2 55)) \<and>
   db (snd (has_exceeded_rate_limit (mw 2 60) ''1.2.3.4'' (store_with ''1.2.3.4'' 2 55)))
     = db (store_with ''1.2.3.4'' 2 55) \<and>
   fst (burst (mw 2 60) ''1.2.3.4'' 3 (store_with ''1.2.3.4'' 2 55)) = [True, True, True] \<and>
   db (snd (burst (mw 2 60) ''1.2.3.4'' 3 (store_with ''1.2.3.4'' 2 55))) ''1.2.3.4''
     = Some \<lparr>cvalue = 2, ttl = Some 55\<rparr>"
  using denied_check_leaves_store
    [of "store_with ''1.2.3.4'' 2 55" "''1.2.3.4''" "\<lparr>cvalue = 2, ttl = Some 55\<rparr>" "mw 2 60" 3]
  by (simp add: store_with_def mw_def numeral_3_eq_3)

section \<open>Identity extraction\<close>

lemma client_ip_no_forwarded_for:
  assumes "Headers_get (headers sc) ''x-forwarded-for'' None = None"
    and "client sc = Some (host, port)"
  shows "client_ip sc = Inr (next_iter host)"
proof -
  have "Headers_get hs key d = d" if "Headers_get hs key None = None" for hs key and d :: "string option"
    using that by (induction hs key d rule: Headers_get.induct) (auto split: if_splits)
  with assms show ?thesis by (simp add: client_ip_def)
qed

text \<open>
  C3. Without a forwarded-for header the identifier of the address check should be the
  whole peer address. At a request from 127.0.0.1 without that header the code takes
  the first character of the address, and the counter it starts is the one of \<open>1\<close>.
\<close>

theorem client_ip_is_first_character:
  "client_ip (http_request (Some (''127.0.0.1'', 50000)) []) = Inr (Some ''1'') \<and>
   map_sum id (ops \<circ> snd)
     (call (mw 100 60) (http_request (Some (''127.0.0.1'', 50000)) []) ''receive'' ''send''
        empty_store)
     = Inr [Op_get ''1'', Op_set ''1'' 1 60]"
  by (simp add: client_ip_def http_request_def call_def throttled_def mw_def empty_store_def
      has_exceeded_rate_limit_def redis_get_def redis_set_def)

text \<open>
  C4. A request without forwarded-for header, without peer address and without
  credential header should be passed on. At such a request, whose \<open>scope["client"]\<close>
  is \<open>None\<close>, the code raises \<open>TypeError\<close> before any check.
\<close>

theorem call_without_client_raises:
  "call (mw 100 60) (http_request None []) ''receive'' ''send'' empty_store = Inl TypeError"
  by (simp add: call_def client_ip_def http_request_def)

text \<open>
  The part of that sentence the code does: when the peer address is there and the
  address it yields is empty or missing, and the credential header is missing or empty,
  nothing is checked and the request goes downstream.
\<close>

lemma call_without_identity:
  assumes "stype sc = ''http''" "client_ip sc = Inr ip" "\<not> truthy ip"
    and "\<not> truthy (Headers_get (headers sc) (token_header self) None)"
  shows "call self sc receive send s = Inr (App_called (app self) sc receive send, s)"
  using assms by (simp add: call_def throttled_def)

section \<open>The gate\<close>

text \<open>
  C6. When the address of an HTTP request is present and its record is at or above the
  limit, the gate sends the rejection response, and the only command the store gets is
  the read of the address's record: no record changes, and no record under another
  key, such as the token's, is read or written.
\<close>

theorem address_denial_skips_token:
  assumes "stype sc = ''http''" "client_ip sc = Inr (Some a)" "a \<noteq> []"
    and "db s a = Some c" "limit self \<le> cvalue c"
  shows "call self sc receive send s
           = Inr (Response_sent ThrottlingResponse sc receive send,
                  s\<lparr>ops := ops s @ [Op_get a]\<rparr>)"
  using assms by (simp add: call_def throttled_def has_exceeded_denied)

theorem address_denial_skips_token_witness:
  "stype (http_request (Some (''10.0.0.1'', 4242))
            [(''x-forwarded-for'', ''1.2.3.4''), (''authorization'', ''tok'')]) = ''http'' \<and>
   client_ip (http_request (Some (''10.0.0.1'', 4242))
            [(''x-forwarded-for'', ''1.2.3.4''), (''authorization'', ''tok'')])
     = Inr (Some ''1.2.3.4'') \<and>
   ''1.2.3.4'' \<noteq> [] \<and>
   db (store_with2 ''tok'' 1 ''1.2.3.4'' 2) ''1.2.3.4'' = Some \<lparr>cvalue = 2, ttl = Some 30\<rparr> \<and>
   limit (mw 2 60) \<le> 2 \<and>
   call (mw 2 60)
     (http_request (Some (''10.0.0.1'', 4242))
        [(''x-forwarded-for'', ''1.2.3.4''), (''authorization'', ''tok'')])
     ''receive'' ''send'' (store_with2 ''tok'' 1 ''1.2.3.4'' 2)
     = Inr (Response_sent ThrottlingResponse
              (http_request (Some (''10.0.0.1'', 4242))
                 [(''x-forwarded-for'', ''1.2.3.4''), (''authorization'', ''tok'')])
              ''receive'' ''send'',
            (store_with2 ''tok'' 1 ''1.2.3.4'' 2)\<lparr>ops := [Op_get ''1.2.3.4'']\<rparr>)"
  using address_denial_skips_token
    [of "http_request (Some (''10.0.0.1'', 4242))
           [(''x-forwarded-for'', ''1.2.3.4''), (''authorization'', ''tok'')]"
        "''1.2.3.4''" "store_with2 ''tok'' 1 ''1.2.3.4'' 2" "\<lparr>cvalue = 2, ttl = Some 30\<rparr>"
        "mw 2 60" "''receive''" "''send''"]
  by (simp add: http_request_def client_ip_def store_with2_def mw_def)

text \<open>
  C7. The rejection response has status code 429 and body
  \<open>{"detail": "Too Many Requests"}\<close>. Whenever the address check or the token check of
  an HTTP request denies, the gate sends that response and does not call the
  downstream application; and whatever a call of the gate completes with is either the
  call of the downstream application or that response.
\<close>

theorem rejection_is_429:
  "status_code ThrottlingResponse = 429 \<and>
   content ThrottlingResponse = [(''detail'', ''Too Many Requests'')] \<and>
   (stype sc = ''http'' \<and> client_ip sc = Inr ip \<and>
      (fst (throttled self ip s) \<or>
       fst (throttled self (Headers_get (headers sc) (token_header self) None)
              (snd (throttled self ip s)))) \<longrightarrow>
    (\<exists>s'. call self sc receive send s
             = Inr (Response_sent ThrottlingResponse sc receive send, s'))) \<and>
   (\<forall>out s'. call self sc receive send s = Inr (out, s') \<longrightarrow>
      out = App_called (app self) sc receive send \<or>
      out = Response_sent ThrottlingResponse sc receive send)"
  by (auto simp add: ThrottlingResponse_def call_def split_beta Let_def
      split: if_splits sum.splits)

theorem rejection_is_429_witness:
  "stype (http_request (Some (''10.0.0.1'', 4242))
            [(''x-forwarded-for'', ''1.2.3.4''), (''authorization'', ''tok'')]) = ''http'' \<and>
   client_ip (http_request (Some (''10.0.0.1'', 4242))
            [(''x-forwarded-for'', ''1.2.3.4''), (''authorization'', ''tok'')])
     = Inr (Some ''1.2.3.4'') \<and>
   \<not> fst (throttled (mw 2 60) (Some ''1.2.3.4'') (store_with2 ''tok'' 2 ''1.2.3.4'' 1)) \<and>
   fst (throttled (mw 2 60)
          (Headers_get [(''x-forwarded-for'', ''1.2.3.4''), (''authorization'', ''tok'')]
             (token_header (mw 2 60)) None)
          (snd (throttled (mw 2 60) (Some ''1.2.3.4'') (store_with2 ''tok'' 2 ''1.2.3.4'' 1)))) \<and>
   map_sum id fst
     (call (mw 2 60)
        (http_request (Some (''10.0.0.1'', 4242))
           [(''x-forwarded-for'', ''1.2.3.4''), (''authorization'', ''tok'')])
        ''receive'' ''send'' (store_with2 ''tok'' 2 ''1.2.3.4'' 1))
     = Inr (Response_sent
              \<lparr>status_code = 429, content = [(''detail'', ''Too Many Requests'')]\<rparr>
              (http_request (Some (''10.0.0.1'', 4242))
                 [(''x-forwarded-for'', ''1.2.3.4''), (''authorization'', ''tok'')])
              ''receive'' ''send'')"
  using rejection_is_429
    [of "http_request (Some (''10.0.0.1'', 4242))
           [(''x-forwarded-for'', ''1.2.3.4''), (''authorization'', ''tok'')]"
        "Some ''1.2.3.4''" "mw 2 60" "store_with2 ''tok'' 2 ''1.2.3.4'' 1"
        "''receive''" "''send''"]
  by (auto simp add: http_request_def client_ip_def store_with2_def mw_def throttled_def
      has_exceeded_rate_limit_def redis_get_def redis_incr_def ThrottlingResponse_def)

text \<open>
  C10. For a scope whose type is not \<open>http\<close> the middleware itself calls the downstream
  application with the scope, receive and send it got; the store gets no command and
  no response is sent.
\<close>

theorem non_http_bypasses_throttling:
  "stype sc \<noteq> ''http'' \<Longrightarrow>
     call self sc receive send s = Inr (App_called (app self) sc receive send, s)"
  by (simp add: call_def)

theorem non_http_bypasses_throttling_witness:
  "stype \<lparr>stype = ''websocket'', headers = [(''authorization'', ''tok'')], client = None\<rparr>
     \<noteq> ''http'' \<and>
   call (mw 1 60)
     \<lparr>stype = ''websocket'', headers = [(''authorization'', ''tok'')], client = None\<rparr>
     ''receive'' ''send'' (store_with ''tok'' 1 30)
     = Inr (App_called ''downstream''
              \<lparr>stype = ''websocket'', headers = [(''authorization'', ''tok'')], client = None\<rparr>
              ''receive'' ''send'',
            store_with ''tok'' 1 30)"
  using non_http_bypasses_throttling
    [of "\<lparr>stype = ''websocket'', headers = [(''authorization'', ''tok'')], client = None\<rparr>"
        "mw 1 60" "''receive''" "''send''" "store_with ''tok'' 1 30"]
  by (simp add: mw_def)

section \<open>Construction\<close>

text \<open>
  C8, as the code has it. The constructor checks nothing: for every limit and every
  window, also a limit below 1 or a window of 0 or less, construction succeeds and the
  middleware holds the two values as they were given.
\<close>

theorem init_accepts_every_policy:
  "\<exists>m. init a lim win th r = Inr m \<and> limit m = lim \<and> window m = win"
  by (simp add: init_def)

text \<open>
  The claim as the specification words it, that construction fails for a limit below 1
  or a window of 0 or less, is false for limit 0 and window -1.
\<close>

theorem init_malformed_policy_counterexample:
  "init ''downstream'' 0 (- 1) ''Authorization'' None = Inr (mw 0 (- 1))"
  by (simp add: init_def mw_def)

section \<open>Identifiers and store keys\<close>

text \<open>
  C9, as the code has it. Identifiers that differ as strings are independent: any
  number of rate checks on one leaves the record of the other as it was, and changes
  neither the decision of the other's next check nor the record that check leaves. An
  identifier is used as the store key as it is, so identities with the same string share
  one record.
\<close>

theorem distinct_identifiers_independent:
  assumes "i \<noteq> j"
  shows "db (snd (burst self i n s)) j = db s j \<and>
         fst (has_exceeded_rate_limit self j (snd (burst self i n s)))
           = fst (has_exceeded_rate_limit self j s) \<and>
         db (snd (has_exceeded_rate_limit self j (snd (burst self i n s)))) j
           = db (snd (has_exceeded_rate_limit self j s)) j"
  using has_exceeded_reads_own_key [OF burst_other_key [OF assms, of self n s], of self]
    burst_other_key [OF assms, of self n s]
  by simp

theorem distinct_identifiers_independent_witness:
  "''10.0.0.1'' \<noteq> ''tok'' \<and>
   db (snd (burst (mw 2 60) ''10.0.0.1'' 3 (store_with ''tok'' 1 30))) ''tok''
     = Some \<lparr>cvalue = 1, ttl = Some 30\<rparr> \<and>
   \<not> fst (has_exceeded_rate_limit (mw 2 60) ''tok''
           (snd (burst (mw 2 60) ''10.0.0.1'' 3 (store_with ''tok'' 1 30)))) \<and>
   db (snd (has_exceeded_rate_limit (mw 2 60) ''tok''
              (snd (burst (mw 2 60) ''10.0.0.1'' 3 (store_with ''tok'' 1 30))))) ''tok''
     = Some \<lparr>cvalue = 2, ttl = Some 30\<rparr>"
  using distinct_identifiers_independent
    [of "''10.0.0.1''" "''tok''" "mw 2 60" 3 "store_with ''tok'' 1 30"]
  by (simp add: store_with_def mw_def has_exceeded_rate_limit_def redis_get_def
      redis_incr_def)

text \<open>
  The claim as the specification words it, that identities stay independent when their
  strings are equal, is false. With limit 1, a request whose token is \<open>10.0.0.1\<close> is
  passed on when the store is empty, and rejected after one request of another client
  whose address is \<open>10.0.0.1\<close>.
\<close>

theorem equal_identifiers_counterexample:
  "map_sum id fst
     (call (mw 1 60)
        (http_request (Some (''10.0.0.2'', 4242))
           [(''x-forwarded-for'', ''10.0.0.2''), (''authorization'', ''10.0.0.1'')])
        ''receive'' ''send'' empty_store)
     = Inr (App_called ''downstream''
              (http_request (Some (''10.0.0.2'', 4242))
                 [(''x-forwarded-for'', ''10.0.0.2''), (''authorization'', ''10.0.0.1'')])
              ''receive'' ''send'') \<and>
   map_sum id fst
     (call (mw 1 60)
        (http_request (Some (''10.0.0.2'', 4242))
           [(''x-forwarded-for'', ''10.0.0.2''), (''authorization'', ''10.0.0.1'')])
        ''receive'' ''send''
        (snd (projr (call (mw 1 60)
                       (http_request (Some (''10.0.0.1'', 4242))
                          [(''x-forwarded-for'', ''10.0.0.1'')])
                       ''receive'' ''send'' empty_store))))
     = Inr (Response_sent ThrottlingResponse
              (http_request (Some (''10.0.0.2'', 4242))
                 [(''x-forwarded-for'', ''10.0.0.2''), (''authorization'', ''10.0.0.1'')])
              ''receive'' ''send'')"
  by (simp add: call_def client_ip_def http_request_def throttled_def mw_def empty_store_def
      has_exceeded_rate_limit_def redis_get_def redis_set_def redis_incr_def)

end
